theory Spec2Isabelle
  imports Complex_Main "HOL-Library.Sublist" "HOL-Library.AList" "HOL-Library.Word"
begin

section \<open>Python values\<close>

text \<open>
  The services receive values decoded from a JSON request body. \<open>timestamp\<close>,
  \<open>duration\<close> and \<open>image_data\<close> are never inspected beyond Python's truth test and
  (for \<open>duration\<close>) one division, so they are kept as JSON values. \<open>text\<close> is a
  Python \<open>str\<close>.

  Numbers: Python computes the scores with IEEE doubles. The model computes with exact
  rationals (\<open>rat\<close>); NaN and the infinities are not represented, and a quotient is the
  exact quotient. Every threshold comparison and every rounding below is therefore the
  one of the exact value.

  Characters: a \<open>char\<close> is the code point of the same number, so a text is a string of
  code points below 256. The three character tables of the source (\<open>str.isspace\<close>, the
  regular expression class \<open>\w\<close> and \<open>str.lower\<close>) are written out for these code
  points as CPython has them.
\<close>

datatype json =
    JNull
  | JBool bool
  | JInt int
  | JFloat rat
  | JStr string
  | JArr "json list"
  | JObj "(string \<times> json) list"

text \<open>Python's truth test (\<open>if x:\<close>, \<open>not x\<close>, \<open>bool(x)\<close>).\<close>

fun truthy :: "json \<Rightarrow> bool" where
  "truthy JNull = False"
| "truthy (JBool b) = b"
| "truthy (JInt i) = (i \<noteq> 0)"
| "truthy (JFloat q) = (q \<noteq> 0)"
| "truthy (JStr s) = (s \<noteq> [])"
| "truthy (JArr xs) = (xs \<noteq> [])"
| "truthy (JObj kvs) = (kvs \<noteq> [])"

text \<open>Exceptions carry the message that \<open>str(e)\<close> prints.\<close>

datatype py_error =
    TypeError string
  | ZeroDivisionError string
  | LibraryError string

fun str_of_error :: "py_error \<Rightarrow> string" where
  "str_of_error (TypeError m) = m"
| "str_of_error (ZeroDivisionError m) = m"
| "str_of_error (LibraryError m) = m"

fun type_name :: "json \<Rightarrow> string" where
  "type_name JNull = ''NoneType''"
| "type_name (JBool b) = ''bool''"
| "type_name (JInt i) = ''int''"
| "type_name (JFloat q) = ''float''"
| "type_name (JStr s) = ''str''"
| "type_name (JArr xs) = ''list''"
| "type_name (JObj kvs) = ''dict''"

definition quoted :: "string \<Rightarrow> string" where
  "quoted s = [CHR 0x27] @ s @ [CHR 0x27]"

text \<open>\<open>n / d\<close> for a Python \<open>int\<close> \<open>n\<close> and a JSON value \<open>d\<close> (true division).\<close>

fun py_truediv :: "rat \<Rightarrow> json \<Rightarrow> py_error + rat" where
  "py_truediv x (JBool b) = (if b then Inr x else Inl (ZeroDivisionError ''division by zero''))"
| "py_truediv x (JInt i) =
     (if i = 0 then Inl (ZeroDivisionError ''division by zero'') else Inr (x / of_int i))"
| "py_truediv x (JFloat q) =
     (if q = 0 then Inl (ZeroDivisionError ''float division by zero'') else Inr (x / q))"
| "py_truediv x d =
     Inl (TypeError (''unsupported operand type(s) for /: '' @ quoted ''int'' @ '' and ''
                       @ quoted (type_name d)))"

text \<open>\<open>round(x, n)\<close>: to \<open>n\<close> decimal places, a tie going to the even neighbour.\<close>

definition round_half_even :: "rat \<Rightarrow> int" where
  "round_half_even x =
     (let f = \<lfloor>x\<rfloor>; d = x - of_int f
      in if d < 1 / 2 then f else if 1 / 2 < d then f + 1 else if even f then f else f + 1)"

definition py_round :: "rat \<Rightarrow> nat \<Rightarrow> rat" where
  "py_round x n = of_int (round_half_even (x * 10 ^ n)) / 10 ^ n"

section \<open>Python strings\<close>

definition isspace :: "char \<Rightarrow> bool" where
  "isspace c =
     (let n = (of_char c :: nat)
      in (9 \<le> n \<and> n \<le> 13) \<or> (28 \<le> n \<and> n \<le> 32) \<or> n = 133 \<or> n = 160)"

text \<open>The class \<open>\w\<close> of \<open>re\<close> on \<open>str\<close> patterns: alphanumeric or underscore.\<close>

definition isword :: "char \<Rightarrow> bool" where
  "isword c =
     (let n = (of_char c :: nat)
      in (48 \<le> n \<and> n \<le> 57) \<or> (65 \<le> n \<and> n \<le> 90) \<or> n = 95 \<or> (97 \<le> n \<and> n \<le> 122)
         \<or> n = 170 \<or> n = 178 \<or> n = 179 \<or> n = 181 \<or> n = 185 \<or> n = 186
         \<or> (188 \<le> n \<and> n \<le> 190) \<or> (192 \<le> n \<and> n \<le> 214) \<or> (216 \<le> n \<and> n \<le> 246)
         \<or> 248 \<le> n)"

definition lower_char :: "char \<Rightarrow> char" where
  "lower_char c =
     (let n = (of_char c :: nat)
      in if (65 \<le> n \<and> n \<le> 90) \<or> (192 \<le> n \<and> n \<le> 222 \<and> n \<noteq> 215)
         then char_of (n + 32) else c)"

definition py_lower :: "string \<Rightarrow> string" where
  "py_lower s = map lower_char s"

text \<open>\<open>s.split()\<close>: the maximal runs of non-whitespace characters.\<close>

fun split_from :: "string \<Rightarrow> string \<Rightarrow> string list" where
  "split_from cur [] = (if cur = [] then [] else [cur])"
| "split_from cur (c # cs) =
     (if isspace c then (if cur = [] then split_from [] cs else cur # split_from [] cs)
      else split_from (cur @ [c]) cs)"

definition py_split :: "string \<Rightarrow> string list" where
  "py_split s = split_from [] s"

definition py_strip :: "string \<Rightarrow> string" where
  "py_strip s = rev (dropWhile isspace (rev (dropWhile isspace s)))"

fun py_join :: "string \<Rightarrow> string list \<Rightarrow> string" where
  "py_join sep [] = []"
| "py_join sep [w] = w"
| "py_join sep (w # v # ws) = w @ sep @ py_join sep (v # ws)"

text \<open>\<open>s.count(sub)\<close>: occurrences found left to right, each search resuming after the
  previous occurrence.\<close>

fun py_count :: "string \<Rightarrow> string \<Rightarrow> nat" where
  "py_count sub [] = (if sub = [] then 1 else 0)"
| "py_count sub (c # cs) =
     (if prefix sub (c # cs) then Suc (py_count sub (drop (length sub - 1) cs))
      else py_count sub cs)"

text \<open>\<open>len(re.split(r'[.!?]+', s))\<close>: one piece more than there are maximal runs of the
  three characters. The flag says whether the previous character was in a run.\<close>

definition sentence_end :: "char \<Rightarrow> bool" where
  "sentence_end c = (c = CHR ''.'' \<or> c = CHR ''!'' \<or> c = CHR ''?'')"

fun count_runs :: "bool \<Rightarrow> string \<Rightarrow> nat" where
  "count_runs inrun [] = 0"
| "count_runs inrun (c # cs) =
     (if sentence_end c then (if inrun then count_runs True cs else Suc (count_runs True cs))
      else count_runs False cs)"

definition re_split_len :: "string \<Rightarrow> nat" where
  "re_split_len s = Suc (count_runs False s)"

text \<open>
  \<open>len(re.findall(r'\b' + re.escape(p) + r'\b', s))\<close> for a phrase \<open>p\<close>. Every phrase of
  the source is made of letters and spaces, so the escaped pattern matches \<open>p\<close> literally.
  \<open>\b\<close> holds at a position when exactly one of the characters before and after it is a
  word character (a missing character is not one). The scan keeps the character before
  the current position; after a match it resumes behind the match, and one character
  further when the match was empty.
\<close>

definition word_opt :: "char option \<Rightarrow> bool" where
  "word_opt x = (case x of None \<Rightarrow> False | Some c \<Rightarrow> isword c)"

definition head_opt :: "string \<Rightarrow> char option" where
  "head_opt s = (case s of [] \<Rightarrow> None | c # _ \<Rightarrow> Some c)"

definition boundary :: "char option \<Rightarrow> char option \<Rightarrow> bool" where
  "boundary prev next = (word_opt prev \<noteq> word_opt next)"

definition match_here :: "string \<Rightarrow> char option \<Rightarrow> string \<Rightarrow> bool" where
  "match_here p prev s =
     (boundary prev (head_opt s) \<and> prefix p s
      \<and> boundary (if p = [] then prev else Some (last p)) (head_opt (drop (length p) s)))"

fun findall_count :: "string \<Rightarrow> char option \<Rightarrow> string \<Rightarrow> nat" where
  "findall_count p prev [] = (if match_here p prev [] then 1 else 0)"
| "findall_count p prev (c # cs) =
     (if match_here p prev (c # cs)
      then Suc (findall_count p (Some (last (c # take (length p - 1) cs)))
                  (drop (length p - 1) cs))
      else findall_count p (Some c) cs)"

section \<open>VoiceAnalysisService\<close>

text \<open>
  The three vocabularies are Python sets. Membership does not depend on the order of a
  set; iteration does, and the order of a set of strings changes with the hash seed of
  the process. \<open>detect_filler_words\<close> iterates, so it takes the iteration order as an
  argument: any list without repetition of the elements of \<open>filler_words\<close>.
\<close>

definition filler_words :: "string list" where
  "filler_words =
     [''um'', ''uh'', ''er'', ''ah'', ''like'', ''you know'', ''so'', ''well'',
      ''actually'', ''basically'', ''literally'', ''obviously'', ''right'',
      ''okay'', ''alright'', ''i mean'', ''sort of'', ''kind of'', ''you see'',
      ''let me think'', ''how do i put this'', ''what i mean is'']"

definition confidence_strong :: "string list" where
  "confidence_strong =
     [''definitely'', ''absolutely'', ''certainly'', ''clearly'', ''exactly'',
      ''precisely'', ''specifically'', ''without doubt'', ''for sure'',
      ''undoubtedly'', ''obviously'', ''of course'']"

definition confidence_weak :: "string list" where
  "confidence_weak =
     [''maybe'', ''perhaps'', ''i think'', ''i guess'', ''probably'',
      ''sort of'', ''kind of'', ''i suppose'', ''i believe'',
      ''it seems'', ''i feel like'', ''possibly'']"

definition clarity_clear :: "string list" where
  "clarity_clear =
     [''first'', ''second'', ''third'', ''next'', ''then'', ''finally'',
      ''in conclusion'', ''to summarize'', ''specifically'',
      ''for example'', ''such as'', ''in other words'']"

definition clarity_unclear :: "string list" where
  "clarity_unclear =
     [''stuff'', ''things'', ''whatever'', ''something'', ''somehow'',
      ''somewhere'', ''whatnot'', ''and so on'', ''etcetera'']"


subsection \<open>detect_filler_words\<close>

record filler_analysis =
  fa_total :: nat
  fa_breakdown :: "(string \<times> nat) list"
  fa_unique_fillers :: nat

text \<open>The dictionary \<open>filler_count\<close> keeps its keys in insertion order, as a Python
  \<open>dict\<close> does; \<open>AList.update\<close> overwrites a key in place and appends a new one.\<close>

fun filler_loop ::
  "string \<Rightarrow> string list \<Rightarrow> (string \<times> nat) list \<times> nat \<Rightarrow> (string \<times> nat) list \<times> nat" where
  "filler_loop text_lower [] st = st"
| "filler_loop text_lower (filler # rest) (filler_count, total_fillers) =
     (let matches = findall_count filler None text_lower
      in if matches > 0
         then filler_loop text_lower rest
                (AList.update filler matches filler_count, total_fillers + matches)
         else filler_loop text_lower rest (filler_count, total_fillers))"

definition detect_filler_words :: "string list \<Rightarrow> string \<Rightarrow> filler_analysis" where
  "detect_filler_words order text =
     (let text_lower = py_lower text;
          st = filler_loop text_lower order ([], 0)
      in \<lparr>fa_total = snd st, fa_breakdown = fst st, fa_unique_fillers = length (fst st)\<rparr>)"

subsection \<open>analyze_pauses\<close>

record pause_breakdown =
  pb_commas :: nat
  pb_periods :: nat
  pb_semicolons :: nat
  pb_dashes :: nat
  pb_ellipses :: nat

record pause_analysis =
  pa_total_pauses :: nat
  pa_pause_frequency_per_100_words :: rat
  pa_pause_breakdown :: pause_breakdown
  pa_average_sentence_length :: rat
  pa_sentences_count :: nat

text \<open>\<open>text.count\<close> of the em dash, the code point 8212: it does not occur in a text of
  code points below 256.\<close>

definition count_em_dash :: "string \<Rightarrow> nat" where
  "count_em_dash text = 0"

definition analyze_pauses :: "string \<Rightarrow> pause_analysis" where
  "analyze_pauses text =
     (let commas = py_count '','' text;
          periods = py_count ''.'' text;
          semicolons = py_count '';'' text;
          dashes = py_count ''--'' text + count_em_dash text;
          ellipses = py_count ''...'' text;
          sentences = re_split_len text;
          words = length (py_split text);
          total_pauses = commas + periods + semicolons + dashes + ellipses;
          pause_frequency = of_nat total_pauses / of_nat (max words 1) * 100;
          avg_sentence_length = of_nat words / of_nat (max sentences 1)
      in \<lparr>pa_total_pauses = total_pauses,
          pa_pause_frequency_per_100_words = py_round pause_frequency 2,
          pa_pause_breakdown =
            \<lparr>pb_commas = commas, pb_periods = periods, pb_semicolons = semicolons,
             pb_dashes = dashes, pb_ellipses = ellipses\<rparr>,
          pa_average_sentence_length = py_round avg_sentence_length 2,
          pa_sentences_count = sentences\<rparr>)"

subsection \<open>analyze_confidence_clarity\<close>

record voice_confidence =
  vc_score :: rat
  vc_level :: string
  vc_strong_indicators :: nat
  vc_weak_indicators :: nat

record voice_clarity =
  vl_score :: rat
  vl_level :: string
  vl_clear_indicators :: nat
  vl_unclear_indicators :: nat

record confidence_clarity =
  cc_confidence :: voice_confidence
  cc_clarity :: voice_clarity

text \<open>\<open>sum(1 for word in words if word in vocabulary)\<close>\<close>

definition count_in :: "string list \<Rightarrow> string list \<Rightarrow> nat" where
  "count_in vocabulary words = length (filter (\<lambda>word. word \<in> set vocabulary) words)"

definition analyze_confidence_clarity :: "string \<Rightarrow> confidence_clarity" where
  "analyze_confidence_clarity text =
     (let words = py_split (py_lower text);
          strong_confidence = count_in confidence_strong words;
          weak_confidence = count_in confidence_weak words;
          clear_indicators = count_in clarity_clear words;
          unclear_indicators = count_in clarity_unclear words;
          confidence_score =
            (of_nat strong_confidence - of_nat weak_confidence) / of_nat (max (length words) 1);
          clarity_score =
            (of_nat clear_indicators - of_nat unclear_indicators) / of_nat (max (length words) 1);
          confidence_level =
            (if confidence_score > 2 / 100 then ''high''
             else if confidence_score < - (2 / 100) then ''low'' else ''medium'');
          clarity_level =
            (if clarity_score > 1 / 100 then ''high''
             else if clarity_score < - (1 / 100) then ''low'' else ''medium'')
      in \<lparr>cc_confidence = \<lparr>vc_score = py_round confidence_score 4,
                          vc_level = confidence_level,
                          vc_strong_indicators = strong_confidence,
                          vc_weak_indicators = weak_confidence\<rparr>,
          cc_clarity = \<lparr>vl_score = py_round clarity_score 4,
                       vl_level = clarity_level,
                       vl_clear_indicators = clear_indicators,
                       vl_unclear_indicators = unclear_indicators\<rparr>\<rparr>)"

subsection \<open>calculate_speaking_pace\<close>

record speaking_pace =
  sp_words_per_minute :: rat
  sp_word_count :: nat
  sp_duration_seconds :: json
  sp_estimated_duration :: bool
  sp_pace_category :: string

text \<open>The rate before it is categorised and rounded. An omitted \<open>duration\<close> is
  \<open>None\<close>. The division raises for a value that is true and not a number.\<close>

definition pace_wpm :: "nat \<Rightarrow> json \<Rightarrow> py_error + rat" where
  "pace_wpm word_count duration =
     (if truthy duration
      then (case py_truediv (of_nat word_count) duration of
              Inl e \<Rightarrow> Inl e
            | Inr q \<Rightarrow> Inr (q * 60))
      else (let estimated_duration_minutes = (of_nat word_count :: rat) / 180
            in Inr (if estimated_duration_minutes > 0
                    then of_nat word_count / estimated_duration_minutes else 0)))"

definition calculate_speaking_pace :: "string \<Rightarrow> json \<Rightarrow> py_error + speaking_pace" where
  "calculate_speaking_pace text duration =
     (let words = py_split text;
          word_count = length words
      in case pace_wpm word_count duration of
           Inl e \<Rightarrow> Inl e
         | Inr wpm \<Rightarrow>
             Inr \<lparr>sp_words_per_minute = py_round wpm 1,
                  sp_word_count = word_count,
                  sp_duration_seconds = duration,
                  sp_estimated_duration = (\<not> truthy duration),
                  sp_pace_category =
                    (if wpm < 120 then ''slow'' else if wpm > 200 then ''fast'' else ''normal'')\<rparr>)"

subsection \<open>analyze_voice\<close>

record voice_quality =
  vq_score :: rat
  vq_rating :: string

record voice_analysis =
  va_timestamp :: json
  va_speaking_pace :: speaking_pace
  va_filler_words :: filler_analysis
  va_pause_analysis :: pause_analysis
  va_confidence_clarity :: confidence_clarity
  va_overall_voice_quality :: voice_quality

text \<open>A result is one of the two dictionaries the function builds: the error dictionary
  with the keys \<open>timestamp\<close> and \<open>error\<close>, or the analysis. The \<open>except Exception\<close>
  clause turns an exception of the body into the error dictionary.\<close>

datatype voice_result =
    VoiceError json string
  | VoiceOk voice_analysis

definition analyze_voice :: "string list \<Rightarrow> string \<Rightarrow> json \<Rightarrow> json \<Rightarrow> voice_result" where
  "analyze_voice order text timestamp duration =
     (if py_strip text = [] then VoiceError timestamp ''No text provided for voice analysis''
      else case calculate_speaking_pace text duration of
        Inl e \<Rightarrow> VoiceError timestamp (''Voice analysis failed: '' @ str_of_error e)
      | Inr speaking_pace \<Rightarrow>
          (let filler_analysis = detect_filler_words order text;
               pause_analysis = analyze_pauses text;
               confidence_clarity = analyze_confidence_clarity text;
               pace_score = (if sp_pace_category speaking_pace = ''normal'' then 1 else 7 / 10 :: rat);
               filler_score =
                 max 0 (1 - (of_nat (fa_total filler_analysis)
                              / of_nat (max (sp_word_count speaking_pace) 1)) * 5);
               confidence_score = (vc_score (cc_confidence confidence_clarity) + 1) / 2;
               clarity_score = (vl_score (cc_clarity confidence_clarity) + 1) / 2;
               overall_score = (pace_score + filler_score + confidence_score + clarity_score) / 4
           in VoiceOk
                \<lparr>va_timestamp = timestamp,
                 va_speaking_pace = speaking_pace,
                 va_filler_words = filler_analysis,
                 va_pause_analysis = pause_analysis,
                 va_confidence_clarity = confidence_clarity,
                 va_overall_voice_quality =
                   \<lparr>vq_score = py_round overall_score 3,
                    vq_rating =
                      (if overall_score > 8 / 10 then ''excellent''
                       else if overall_score > 6 / 10 then ''good''
                       else ''needs_improvement'')\<rparr>\<rparr>))"

text \<open>The keys of a result dictionary.\<close>

fun voice_keys :: "voice_result \<Rightarrow> string list" where
  "voice_keys (VoiceError ts msg) = [''timestamp'', ''error'']"
| "voice_keys (VoiceOk a) =
     [''timestamp'', ''speaking_pace'', ''filler_words'', ''pause_analysis'',
      ''confidence_clarity'', ''overall_voice_quality'']"

fun voice_result_timestamp :: "voice_result \<Rightarrow> json" where
  "voice_result_timestamp (VoiceError ts msg) = ts"
| "voice_result_timestamp (VoiceOk a) = va_timestamp a"

fun voice_error :: "voice_result \<Rightarrow> string option" where
  "voice_error (VoiceError ts msg) = Some msg"
| "voice_error (VoiceOk a) = None"




subsection \<open>get_voice_summary\<close>

record voice_summary =
  vs_average_wpm :: rat
  vs_average_filler_rate :: rat
  vs_average_confidence_score :: rat
  vs_average_clarity_score :: rat
  vs_overall_voice_quality :: rat
  vs_total_analyses :: nat

text \<open>A summary function returns \<open>None\<close>, the dictionary \<open>{'error': ...}\<close> or the
  dictionary \<open>{'summary': ...}\<close>; \<open>None\<close> is the \<open>None\<close> of the option type.\<close>

datatype 'a summary_result =
    SummaryError string
  | Summary 'a

text \<open>\<open>[a for a in analyses if 'error' not in a]\<close>\<close>

fun valid_voice :: "voice_result list \<Rightarrow> voice_analysis list" where
  "valid_voice [] = []"
| "valid_voice (VoiceError ts msg # rest) = valid_voice rest"
| "valid_voice (VoiceOk a # rest) = a # valid_voice rest"

definition average :: "rat list \<Rightarrow> rat" where
  "average xs = sum_list xs / of_nat (length xs)"

definition get_voice_summary :: "voice_result list \<Rightarrow> voice_summary summary_result option" where
  "get_voice_summary analyses =
     (if analyses = [] then None
      else let valid_analyses = valid_voice analyses in
        if valid_analyses = [] then Some (SummaryError ''No valid voice analyses to summarize'')
        else let avg_wpm =
                   average (map (\<lambda>a. sp_words_per_minute (va_speaking_pace a)) valid_analyses);
                 avg_filler_rate =
                   average (map (\<lambda>a. of_nat (fa_total (va_filler_words a))
                                        / of_nat (max (sp_word_count (va_speaking_pace a)) 1))
                              valid_analyses);
                 avg_confidence =
                   average (map (\<lambda>a. vc_score (cc_confidence (va_confidence_clarity a)))
                              valid_analyses);
                 avg_clarity =
                   average (map (\<lambda>a. vl_score (cc_clarity (va_confidence_clarity a)))
                              valid_analyses);
                 avg_overall_score =
                   average (map (\<lambda>a. vq_score (va_overall_voice_quality a)) valid_analyses)
             in Some (Summary
                  \<lparr>vs_average_wpm = py_round avg_wpm 1,
                   vs_average_filler_rate = py_round (avg_filler_rate * 100) 2,
                   vs_average_confidence_score = py_round avg_confidence 3,
                   vs_average_clarity_score = py_round avg_clarity 3,
                   vs_overall_voice_quality = py_round avg_overall_score 3,
                   vs_total_analyses = length valid_analyses\<rparr>))"

section \<open>SentimentAnalysisService\<close>

text \<open>
  Three parts of the sentiment service are libraries, not code of the repository: the
  tokenizer \<open>nltk.word_tokenize\<close>, the list \<open>stopwords.words('english')\<close> and the
  estimator behind \<open>TextBlob(...).sentiment\<close>. They are parameters of the model. A
  library call may raise (the tokenizer does when its data files are missing), so the two
  functions return an exception or a value.
\<close>

record nlp =
  word_tokenize :: "string \<Rightarrow> py_error + string list"
  stopwords_english :: "string list"
  textblob_sentiment :: "string \<Rightarrow> py_error + rat \<times> rat"

definition interview_stop_words :: "string list" where
  "interview_stop_words =
     [''um'', ''uh'', ''er'', ''ah'', ''like'', ''you'', ''know'', ''so'', ''well'',
      ''actually'', ''basically'', ''literally'', ''obviously'', ''right'',
      ''okay'', ''alright'', ''mean'', ''sort'', ''kind'', ''think'', ''guess'']"

definition stop_words :: "nlp \<Rightarrow> string set" where
  "stop_words env = set (stopwords_english env) \<union> set interview_stop_words"

definition confidence_high :: "string list" where
  "confidence_high =
     [''definitely'', ''absolutely'', ''certainly'', ''clearly'', ''exactly'',
      ''precisely'', ''specifically'', ''confident'', ''sure'', ''positive'',
      ''convinced'', ''determined'', ''decisive'', ''assertive'']"

definition confidence_low :: "string list" where
  "confidence_low =
     [''maybe'', ''perhaps'', ''possibly'', ''might'', ''could'', ''probably'',
      ''unsure'', ''uncertain'', ''confused'', ''doubt'', ''hesitant'',
      ''tentative'', ''vague'', ''unclear'']"

definition professional_words :: "string list" where
  "professional_words =
     [''experience'', ''skills'', ''expertise'', ''knowledge'', ''proficient'',
      ''accomplished'', ''achieved'', ''successful'', ''leadership'', ''management'',
      ''innovative'', ''creative'', ''analytical'', ''strategic'', ''efficient'',
      ''collaborative'', ''communication'', ''problem-solving'', ''results'',
      ''improvement'', ''optimization'', ''development'', ''implementation'']"

subsection \<open>filter_text\<close>

text \<open>\<open>re.sub(r'[^\w\s]', ' ', text)\<close>\<close>

definition remove_punctuation :: "string \<Rightarrow> string" where
  "remove_punctuation s = map (\<lambda>c. if isword c \<or> isspace c then c else CHR '' '') s"

definition filter_text :: "nlp \<Rightarrow> string \<Rightarrow> py_error + string list \<times> string" where
  "filter_text env text =
     (case word_tokenize env (remove_punctuation (py_lower text)) of
        Inl e \<Rightarrow> Inl e
      | Inr tokens \<Rightarrow>
          (let filtered_tokens =
                 filter (\<lambda>word. word \<notin> stop_words env \<and> length word > 2) tokens
           in Inr (filtered_tokens, py_join '' '' filtered_tokens)))"

subsection \<open>analyze_confidence, analyze_professionalism\<close>

record sentiment_confidence =
  sc_score :: rat
  sc_level :: string
  sc_high_confidence_words :: nat
  sc_low_confidence_words :: nat

definition analyze_confidence :: "string list \<Rightarrow> sentiment_confidence" where
  "analyze_confidence tokens =
     (let high_confidence_count = count_in confidence_high tokens;
          low_confidence_count = count_in confidence_low tokens;
          confidence_score =
            (of_nat high_confidence_count - of_nat low_confidence_count)
              / of_nat (max (length tokens) 1);
          level = (if confidence_score > 1 / 10 then ''high''
                   else if confidence_score < - (1 / 10) then ''low'' else ''medium'')
      in \<lparr>sc_score = py_round confidence_score 3,
          sc_level = level,
          sc_high_confidence_words = high_confidence_count,
          sc_low_confidence_words = low_confidence_count\<rparr>)"

record professionalism =
  pr_score :: rat
  pr_level :: string
  pr_professional_words_count :: nat

definition analyze_professionalism :: "string list \<Rightarrow> professionalism" where
  "analyze_professionalism tokens =
     (let professional_count = count_in professional_words tokens;
          professionalism_score = of_nat professional_count / of_nat (max (length tokens) 1);
          level = (if professionalism_score > 15 / 100 then ''high''
                   else if professionalism_score > 5 / 100 then ''medium'' else ''low'')
      in \<lparr>pr_score = py_round professionalism_score 3,
          pr_level = level,
          pr_professional_words_count = professional_count\<rparr>)"

subsection \<open>Counter and most_common\<close>

text \<open>\<open>Counter(tokens)\<close> counts in a dictionary whose keys are in the order of their first
  occurrence. \<open>most_common(n)\<close> is the first \<open>n\<close> items of the stable sort by
  decreasing count.\<close>

fun counter_loop :: "string list \<Rightarrow> (string \<times> nat) list \<Rightarrow> (string \<times> nat) list" where
  "counter_loop [] counts = counts"
| "counter_loop (w # ws) counts =
     counter_loop ws
       (AList.update w (case map_of counts w of None \<Rightarrow> 1 | Some n \<Rightarrow> n + 1) counts)"

definition most_common :: "nat \<Rightarrow> (string \<times> nat) list \<Rightarrow> (string \<times> nat) list" where
  "most_common n counts = take n (sort_key (\<lambda>item. - int (snd item)) counts)"

subsection \<open>analyze_sentiment\<close>

record sentiment_block =
  sb_polarity :: rat
  sb_subjectivity :: rat
  sb_category :: string
  sb_intensity :: rat

record word_analysis =
  wa_total_words :: nat
  wa_filtered_words :: nat
  wa_most_common :: "(string \<times> nat) list"

record sentiment_analysis =
  sa_timestamp :: json
  sa_original_text :: string
  sa_filtered_text :: string
  sa_sentiment :: sentiment_block
  sa_confidence :: sentiment_confidence
  sa_professionalism :: professionalism
  sa_word_analysis :: word_analysis

datatype sentiment_result =
    SentimentError json string
  | SentimentOk sentiment_analysis

definition analyze_sentiment :: "nlp \<Rightarrow> string \<Rightarrow> json \<Rightarrow> sentiment_result" where
  "analyze_sentiment env text timestamp =
     (case filter_text env text of
        Inl e \<Rightarrow> SentimentError timestamp (''Analysis failed: '' @ str_of_error e)
      | Inr (filtered_tokens, filtered_text) \<Rightarrow>
          if py_strip filtered_text = []
          then SentimentError timestamp ''No meaningful content to analyze after filtering''
          else (case textblob_sentiment env filtered_text of
                  Inl e \<Rightarrow> SentimentError timestamp (''Analysis failed: '' @ str_of_error e)
                | Inr (polarity, subjectivity) \<Rightarrow>
                    (let sentiment_category =
                           (if polarity > 1 / 10 then ''positive''
                            else if polarity < - (1 / 10) then ''negative'' else ''neutral'');
                         confidence_analysis = analyze_confidence filtered_tokens;
                         professionalism_analysis = analyze_professionalism filtered_tokens;
                         word_freq = counter_loop filtered_tokens [];
                         most_common_words = most_common 5 word_freq
                     in SentimentOk
                          \<lparr>sa_timestamp = timestamp,
                           sa_original_text = text,
                           sa_filtered_text = filtered_text,
                           sa_sentiment =
                             \<lparr>sb_polarity = py_round polarity 3,
                              sb_subjectivity = py_round subjectivity 3,
                              sb_category = sentiment_category,
                              sb_intensity = \<bar>polarity\<bar>\<rparr>,
                           sa_confidence = confidence_analysis,
                           sa_professionalism = professionalism_analysis,
                           sa_word_analysis =
                             \<lparr>wa_total_words = length (py_split text),
                              wa_filtered_words = length filtered_tokens,
                              wa_most_common = most_common_words\<rparr>\<rparr>)))"

fun sentiment_keys :: "sentiment_result \<Rightarrow> string list" where
  "sentiment_keys (SentimentError ts msg) = [''timestamp'', ''error'']"
| "sentiment_keys (SentimentOk a) =
     [''timestamp'', ''original_text'', ''filtered_text'', ''sentiment'', ''confidence'',
      ''professionalism'', ''word_analysis'']"

fun sentiment_result_timestamp :: "sentiment_result \<Rightarrow> json" where
  "sentiment_result_timestamp (SentimentError ts msg) = ts"
| "sentiment_result_timestamp (SentimentOk a) = sa_timestamp a"

fun sentiment_error :: "sentiment_result \<Rightarrow> string option" where
  "sentiment_error (SentimentError ts msg) = Some msg"
| "sentiment_error (SentimentOk a) = None"

subsection \<open>get_overall_sentiment_summary\<close>

record sentiment_summary =
  ss_average_polarity :: rat
  ss_average_subjectivity :: rat
  ss_average_confidence :: rat
  ss_average_professionalism :: rat
  ss_sentiment_trend :: string
  ss_total_analyses :: nat

fun valid_sentiment :: "sentiment_result list \<Rightarrow> sentiment_analysis list" where
  "valid_sentiment [] = []"
| "valid_sentiment (SentimentError ts msg # rest) = valid_sentiment rest"
| "valid_sentiment (SentimentOk a # rest) = a # valid_sentiment rest"

definition sentiment_trend :: "rat list \<Rightarrow> string" where
  "sentiment_trend polarities =
     (if length polarities > 1
      then let half = length polarities div 2;
               first_half_avg = sum_list (take half polarities) / of_nat half;
               second_half_avg =
                 sum_list (drop half polarities) / of_nat (length polarities - half)
           in if second_half_avg - first_half_avg > 2 / 10 then ''improving''
              else if first_half_avg - second_half_avg > 2 / 10 then ''declining''
              else ''stable''
      else ''stable'')"

definition get_overall_sentiment_summary ::
  "sentiment_result list \<Rightarrow> sentiment_summary summary_result option" where
  "get_overall_sentiment_summary analyses =
     (if analyses = [] then None
      else let valid_analyses = valid_sentiment analyses in
        if valid_analyses = [] then Some (SummaryError ''No valid analyses to summarize'')
        else let avg_polarity = average (map (\<lambda>a. sb_polarity (sa_sentiment a)) valid_analyses);
                 avg_subjectivity =
                   average (map (\<lambda>a. sb_subjectivity (sa_sentiment a)) valid_analyses);
                 avg_confidence = average (map (\<lambda>a. sc_score (sa_confidence a)) valid_analyses);
                 avg_professionalism =
                   average (map (\<lambda>a. pr_score (sa_professionalism a)) valid_analyses);
                 polarities = map (\<lambda>a. sb_polarity (sa_sentiment a)) valid_analyses;
                 trend = sentiment_trend polarities
             in Some (Summary
                  \<lparr>ss_average_polarity = py_round avg_polarity 3,
                   ss_average_subjectivity = py_round avg_subjectivity 3,
                   ss_average_confidence = py_round avg_confidence 3,
                   ss_average_professionalism = py_round avg_professionalism 3,
                   ss_sentiment_trend = trend,
                   ss_total_analyses = length valid_analyses\<rparr>))"

section \<open>FacialExpressionService\<close>

text \<open>
  The facial service draws from the generator of the module \<open>random\<close>, the only state of
  the process that a service call changes. The generator is a sequence of 53-bit draws
  and a position in it: \<open>random.random()\<close> returns the draw at the position, divided by
  \<open>2 ^ 53\<close>, as CPython computes it, and moves the position by one. \<open>random.uniform\<close> is
  \<open>a + (b - a) * random()\<close>. \<open>random.choice\<close> takes one draw \<open>u\<close> and returns the item
  of index \<open>\<lfloor>u * len\<rfloor>\<close>, so that each item of a non-empty list can be returned and the
  index is always in range.
\<close>

type_synonym random_source = "nat \<Rightarrow> 53 word"

definition random_at :: "random_source \<Rightarrow> nat \<Rightarrow> rat" where
  "random_at g i = of_nat (unat (g i)) / 2 ^ 53"

definition uniform :: "rat \<Rightarrow> rat \<Rightarrow> rat \<Rightarrow> rat" where
  "uniform a b u = a + (b - a) * u"

definition choice :: "'a list \<Rightarrow> rat \<Rightarrow> 'a" where
  "choice seq u = seq ! nat \<lfloor>u * of_nat (length seq)\<rfloor>"

definition expressions :: "string list" where
  "expressions =
     [''neutral'', ''happy'', ''confident'', ''focused'', ''thoughtful'',
      ''concerned'', ''surprised'', ''confused'', ''nervous'', ''engaged'']"

definition engagement_levels :: "string list" where
  "engagement_levels = [''low'', ''medium'', ''high'']"

definition eye_contact_patterns :: "string list" where
  "eye_contact_patterns = [''poor'', ''intermittent'', ''good'', ''excellent'']"

record expression_confidence =
  ec_expression :: string
  ec_confidence :: rat

record facial_expression =
  fe_primary :: expression_confidence
  fe_secondary :: "expression_confidence list"

record engagement =
  en_level :: string
  en_score :: rat

record eye_contact =
  ey_pattern :: string
  ey_score :: rat

record posture =
  po_upright :: bool
  po_leaning_forward :: bool
  po_slouching :: bool
  po_head_tilt :: string

record facial_professionalism =
  fp_score :: rat
  fp_rating :: string

record facial_analysis =
  fx_timestamp :: json
  fx_facial_expression :: facial_expression
  fx_engagement :: engagement
  fx_eye_contact :: eye_contact
  fx_posture :: posture
  fx_professionalism :: facial_professionalism
  fx_analysis_type :: string
  fx_image_processed :: bool

datatype facial_result =
    FacialError json string
  | FacialOk facial_analysis

text \<open>
  The call at position \<open>i\<close> of the generator \<open>g\<close> returns its result and the position
  after it. A dictionary display evaluates all its values, so the three engagement
  scores and the four eye contact scores are all drawn, and one of each is kept. No
  operation of the body raises: each \<open>choice\<close> is from a non-empty list and each
  dictionary is indexed by a key it was built with; the \<open>except\<close> clause, which would
  return \<open>FacialError timestamp ...\<close>, is not reached.
\<close>

definition analyze_facial_expression ::
  "random_source \<Rightarrow> nat \<Rightarrow> json \<Rightarrow> json \<Rightarrow> facial_result \<times> nat" where
  "analyze_facial_expression g i timestamp image_data =
     (let primary_expression = choice expressions (random_at g i);
          confidence = py_round (uniform (7 / 10) (95 / 100) (random_at g (i + 1))) 3;
          has_secondary = (random_at g (i + 2) > 6 / 10);
          secondary_expressions =
            (if has_secondary
             then [\<lparr>ec_expression =
                       choice (filter (\<lambda>e. e \<noteq> primary_expression) expressions)
                         (random_at g (i + 3)),
                     ec_confidence =
                       py_round (uniform (3 / 10) (6 / 10) (random_at g (i + 4))) 3\<rparr>]
             else []);
          j = (if has_secondary then i + 5 else i + 3);
          engagement_level = choice engagement_levels (random_at g j);
          low = py_round (uniform (2 / 10) (4 / 10) (random_at g (j + 1))) 3;
          medium = py_round (uniform (4 / 10) (7 / 10) (random_at g (j + 2))) 3;
          high = py_round (uniform (7 / 10) (9 / 10) (random_at g (j + 3))) 3;
          engagement_score =
            (if engagement_level = ''low'' then low
             else if engagement_level = ''medium'' then medium else high);
          eye_contact = choice eye_contact_patterns (random_at g (j + 4));
          poor = py_round (uniform (1 / 10) (3 / 10) (random_at g (j + 5))) 3;
          intermittent = py_round (uniform (3 / 10) (5 / 10) (random_at g (j + 6))) 3;
          good = py_round (uniform (5 / 10) (8 / 10) (random_at g (j + 7))) 3;
          excellent = py_round (uniform (8 / 10) 1 (random_at g (j + 8))) 3;
          eye_contact_score =
            (if eye_contact = ''poor'' then poor
             else if eye_contact = ''intermittent'' then intermittent
             else if eye_contact = ''good'' then good else excellent);
          posture_indicators =
            \<lparr>po_upright = (random_at g (j + 9) > 3 / 10),
             po_leaning_forward = (random_at g (j + 10) > 7 / 10),
             po_slouching = (random_at g (j + 11) > 8 / 10),
             po_head_tilt =
               choice [''none'', ''slight_left'', ''slight_right'', ''forward'']
                 (random_at g (j + 12))\<rparr>;
          professionalism_factors =
            [if po_upright posture_indicators then 1 else 7 / 10,
             if eye_contact \<in> set [''good'', ''excellent''] then 1 else 6 / 10,
             if primary_expression \<in> set [''confident'', ''focused'', ''engaged'']
             then 1 else 8 / 10,
             if \<not> po_slouching posture_indicators then 1 else 5 / 10];
          professionalism_score =
            sum_list professionalism_factors / of_nat (length professionalism_factors)
      in (FacialOk
            \<lparr>fx_timestamp = timestamp,
             fx_facial_expression =
               \<lparr>fe_primary =
                  \<lparr>ec_expression = primary_expression, ec_confidence = confidence\<rparr>,
                fe_secondary = secondary_expressions\<rparr>,
             fx_engagement = \<lparr>en_level = engagement_level, en_score = engagement_score\<rparr>,
             fx_eye_contact = \<lparr>ey_pattern = eye_contact, ey_score = eye_contact_score\<rparr>,
             fx_posture = posture_indicators,
             fx_professionalism =
               \<lparr>fp_score = py_round professionalism_score 3,
                fp_rating =
                  (if professionalism_score > 8 / 10 then ''excellent''
                   else if professionalism_score > 6 / 10 then ''good''
                   else ''needs_improvement'')\<rparr>,
             fx_analysis_type = ''mockup'',
             fx_image_processed = truthy image_data\<rparr>,
          j + 13))"

fun facial_keys :: "facial_result \<Rightarrow> string list" where
  "facial_keys (FacialError ts msg) = [''timestamp'', ''error'']"
| "facial_keys (FacialOk a) =
     [''timestamp'', ''facial_expression'', ''engagement'', ''eye_contact'', ''posture'',
      ''professionalism'', ''analysis_type'', ''image_processed'']"

fun facial_result_timestamp :: "facial_result \<Rightarrow> json" where
  "facial_result_timestamp (FacialError ts msg) = ts"
| "facial_result_timestamp (FacialOk a) = fx_timestamp a"

fun facial_error :: "facial_result \<Rightarrow> string option" where
  "facial_error (FacialError ts msg) = Some msg"
| "facial_error (FacialOk a) = None"

subsection \<open>get_facial_summary\<close>

record facial_summary =
  fs_most_common_expression :: string
  fs_expression_frequency :: nat
  fs_average_engagement :: rat
  fs_average_eye_contact :: rat
  fs_average_professionalism :: rat
  fs_expression_distribution :: "(string \<times> nat) list"
  fs_total_analyses :: nat

fun valid_facial :: "facial_result list \<Rightarrow> facial_analysis list" where
  "valid_facial [] = []"
| "valid_facial (FacialError ts msg # rest) = valid_facial rest"
| "valid_facial (FacialOk a # rest) = a # valid_facial rest"

text \<open>\<open>max(items, key=lambda x: x[1])\<close> returns the first item of greatest count.\<close>

fun max_by_count :: "string \<times> nat \<Rightarrow> (string \<times> nat) list \<Rightarrow> string \<times> nat" where
  "max_by_count best [] = best"
| "max_by_count best (x # xs) =
     (if snd x > snd best then max_by_count x xs else max_by_count best xs)"

definition get_facial_summary :: "facial_result list \<Rightarrow> facial_summary summary_result option" where
  "get_facial_summary analyses =
     (if analyses = [] then None
      else let valid_analyses = valid_facial analyses in
        if valid_analyses = [] then Some (SummaryError ''No valid facial analyses to summarize'')
        else let expression_counts =
                   counter_loop
                     (map (\<lambda>a. ec_expression (fe_primary (fx_facial_expression a)))
                        valid_analyses) [];
                 avg_engagement = average (map (\<lambda>a. en_score (fx_engagement a)) valid_analyses);
                 avg_eye_contact =
                   average (map (\<lambda>a. ey_score (fx_eye_contact a)) valid_analyses);
                 avg_professionalism =
                   average (map (\<lambda>a. fp_score (fx_professionalism a)) valid_analyses);
                 most_common_expression =
                   (case expression_counts of
                      [] \<Rightarrow> (''neutral'', 0)
                    | x # xs \<Rightarrow> max_by_count x xs)
             in Some (Summary
                  \<lparr>fs_most_common_expression = fst most_common_expression,
                   fs_expression_frequency = snd most_common_expression,
                   fs_average_engagement = py_round avg_engagement 3,
                   fs_average_eye_contact = py_round avg_eye_contact 3,
                   fs_average_professionalism = py_round avg_professionalism 3,
                   fs_expression_distribution = expression_counts,
                   fs_total_analyses = length valid_analyses\<rparr>))"

section \<open>The comprehensive route\<close>

text \<open>
  \<open>request_data\<close> holds what the route reads from the decoded body: \<open>data.get('text', '')\<close>,
  a string, and the three other values, \<open>None\<close> when absent. A response is a body and a
  status code. The \<open>except\<close> clause of the route answers 500 when a statement of the
  route raises; no service call does, so the model has no such branch.
\<close>

record request_data =
  rq_text :: string
  rq_timestamp :: json
  rq_duration :: json
  rq_image_data :: json

datatype response_body =
    ErrorBody string
  | ComprehensiveBody json sentiment_result voice_result facial_result

definition comprehensive_analysis ::
  "nlp \<Rightarrow> string list \<Rightarrow> random_source \<Rightarrow> nat \<Rightarrow> request_data \<Rightarrow> (response_body \<times> nat) \<times> nat" where
  "comprehensive_analysis env order g i data =
     (let text = rq_text data;
          timestamp = rq_timestamp data;
          duration = rq_duration data;
          image_data = rq_image_data data
      in if text = [] \<or> \<not> truthy timestamp
         then ((ErrorBody ''Text and timestamp are required'', 400), i)
         else let sentiment_result = analyze_sentiment env text timestamp;
                  voice_result = analyze_voice order text timestamp duration;
                  facial = analyze_facial_expression g i timestamp image_data
              in ((ComprehensiveBody timestamp sentiment_result voice_result (fst facial), 200),
                  snd facial))"

section \<open>An instance of the libraries\<close>

text \<open>An instance of the three library parameters, to run the model on examples: the
  tokenizer splits at whitespace (after the punctuation is removed the text has only
  word characters and whitespace), the stop list is a short one and the estimator finds
  every text neutral.\<close>

definition example_nlp :: nlp where
  "example_nlp =
     \<lparr>word_tokenize = (\<lambda>s. Inr (py_split s)),
      stopwords_english = [''the'', ''and'', ''this'', ''that'', ''with''],
      textblob_sentiment = (\<lambda>s. Inr (0, 0))\<rparr>"

text \<open>What the properties below ask of a tokenizer: a text of whitespace only has no
  token (the call may also raise).\<close>

definition blank_has_no_token :: "nlp \<Rightarrow> bool" where
  "blank_has_no_token env =
     (\<forall>s tokens. (\<forall>c\<in>set s. isspace c) \<longrightarrow> word_tokenize env s = Inr tokens \<longrightarrow> tokens = [])"

text \<open>A request whose text has two fillers and nothing else.\<close>

definition example_request :: request_data where
  "example_request =
     \<lparr>rq_text = ''um so'', rq_timestamp = JInt 1, rq_duration = JNull, rq_image_data = JNull\<rparr>"

section \<open>The scores of the specification\<close>




section \<open>Example inputs\<close>


text \<open>Two random sources: every draw is 0, every draw is one half.\<close>

definition zero_draws :: random_source where
  "zero_draws = (\<lambda>n. 0)"

definition half_draws :: random_source where
  "half_draws = (\<lambda>n. 2 ^ 52)"


section \<open>Properties of the Python operations\<close>

subsection \<open>Rounding\<close>

lemma round_half_even_ge: "of_int k \<le> x \<Longrightarrow> k \<le> round_half_even x"
proof -
  assume "of_int k \<le> x"
  then have "k \<le> \<lfloor>x\<rfloor>" by (simp add: le_floor_iff)
  then show ?thesis by (simp add: round_half_even_def Let_def)
qed

lemma round_half_even_le: "x \<le> of_int k \<Longrightarrow> round_half_even x \<le> k"
proof -
  assume le: "x \<le> of_int k"
  have fl: "\<lfloor>x\<rfloor> \<le> k" using le by (simp add: floor_le_iff)
  show ?thesis
  proof (cases "x - of_int \<lfloor>x\<rfloor> < 1 / 2")
    case True
    then show ?thesis using fl by (simp add: round_half_even_def Let_def)
  next
    case False
    then have "of_int \<lfloor>x\<rfloor> < x" by linarith
    then have "of_int \<lfloor>x\<rfloor> < (of_int k :: rat)" using le by linarith
    then have "\<lfloor>x\<rfloor> < k" by simp
    then show ?thesis by (simp add: round_half_even_def Let_def)
  qed
qed

lemma py_round_ge: "of_int k / 10 ^ n \<le> x \<Longrightarrow> of_int k / 10 ^ n \<le> py_round x n"
proof -
  assume "of_int k / 10 ^ n \<le> x"
  then have "of_int k \<le> x * 10 ^ n" by (simp add: pos_divide_le_eq)
  then have "k \<le> round_half_even (x * 10 ^ n)" by (rule round_half_even_ge)
  then show ?thesis by (simp add: py_round_def divide_le_cancel)
qed

lemma py_round_le: "x \<le> of_int k / 10 ^ n \<Longrightarrow> py_round x n \<le> of_int k / 10 ^ n"
proof -
  assume "x \<le> of_int k / 10 ^ n"
  then have "x * 10 ^ n \<le> of_int k" by (simp add: pos_le_divide_eq)
  then have "round_half_even (x * 10 ^ n) \<le> k" by (rule round_half_even_le)
  then show ?thesis by (simp add: py_round_def divide_le_cancel)
qed


subsection \<open>Whitespace\<close>

lemma split_from_Nil: "split_from cur s = [] \<longleftrightarrow> cur = [] \<and> (\<forall>c\<in>set s. isspace c)"
  by (induction s arbitrary: cur) auto

lemma py_split_Nil: "py_split s = [] \<longleftrightarrow> (\<forall>c\<in>set s. isspace c)"
  by (simp add: py_split_def split_from_Nil)

lemma py_strip_Nil: "py_strip s = [] \<longleftrightarrow> (\<forall>c\<in>set s. isspace c)"
proof
  assume "py_strip s = []"
  then have a: "\<forall>c\<in>set (dropWhile isspace s). isspace c"
    by (simp add: py_strip_def dropWhile_eq_Nil_conv)
  have "dropWhile isspace s = []"
  proof (rule ccontr)
    assume n: "dropWhile isspace s \<noteq> []"
    then have "\<not> isspace (hd (dropWhile isspace s))" by (rule hd_dropWhile)
    moreover have "hd (dropWhile isspace s) \<in> set (dropWhile isspace s)" using n by simp
    ultimately show False using a by blast
  qed
  then show "\<forall>c\<in>set s. isspace c" by (simp add: dropWhile_eq_Nil_conv)
next
  assume "\<forall>c\<in>set s. isspace c"
  then have d: "dropWhile isspace s = []" by simp
  show "py_strip s = []" unfolding py_strip_def d by simp
qed

lemma isspace_not_word: "isspace c \<Longrightarrow> \<not> isword c"
  by (auto simp: isspace_def isword_def Let_def)

lemma lower_char_space: "isspace c \<Longrightarrow> lower_char c = c"
  by (auto simp: isspace_def lower_char_def Let_def)

lemma blank_filter_input:
  "\<forall>c\<in>set s. isspace c \<Longrightarrow> \<forall>c\<in>set (remove_punctuation (py_lower s)). isspace c"
  by (auto simp: remove_punctuation_def py_lower_def lower_char_space)

subsection \<open>The random source\<close>

lemma random_at_range: "0 \<le> random_at g i \<and> random_at g i < 1"
proof -
  define k where "k = unat (g i)"
  have "k < 2 ^ 53" unfolding k_def using unsigned_less [of "g i", where ?'a = nat] by simp
  then have "(of_nat k :: rat) < of_nat (2 ^ 53)" by (simp only: of_nat_less_iff)
  then have "(of_nat k :: rat) < 2 ^ 53" by simp
  moreover have "(0 :: rat) \<le> of_nat k" by simp
  ultimately have "0 \<le> (of_nat k :: rat) / 2 ^ 53 \<and> (of_nat k :: rat) / 2 ^ 53 < 1" by simp
  then show ?thesis unfolding random_at_def k_def .
qed

lemma choice_nth:
  assumes "xs \<noteq> []" "0 \<le> u" "u < 1"
  shows "\<exists>k < length xs. choice xs u = xs ! k"
proof -
  have n: "0 < (of_nat (length xs) :: rat)" using assms(1) by simp
  have "u * of_nat (length xs) < of_nat (length xs)" using assms(3) n by simp
  then have "\<lfloor>u * of_nat (length xs)\<rfloor> < int (length xs)" by (simp add: floor_less_iff)
  moreover have "0 \<le> \<lfloor>u * of_nat (length xs)\<rfloor>" using assms(2) by simp
  ultimately have "nat \<lfloor>u * of_nat (length xs)\<rfloor> < length xs" by linarith
  then show ?thesis unfolding choice_def by blast
qed

lemma uniform_range:
  assumes "a \<le> b" "0 \<le> u" "u < 1"
  shows "a \<le> uniform a b u \<and> uniform a b u \<le> b"
proof -
  have "0 \<le> (b - a) * u" using assms by simp
  moreover have "(b - a) * u \<le> (b - a) * 1"
    using assms by (intro mult_left_mono) simp_all
  ultimately show ?thesis by (simp add: uniform_def)
qed

section \<open>The claims\<close>

text \<open>
  C9. For the empty sequence of prior results, each of the three summary functions
  (\<open>get_overall_sentiment_summary\<close>, \<open>get_voice_summary\<close>, \<open>get_facial_summary\<close>)
  returns \<open>None\<close>; none of them raises.
\<close>

theorem summary_of_no_analyses:
  "get_overall_sentiment_summary [] = None \<and> get_voice_summary [] = None
   \<and> get_facial_summary [] = None"
  by (simp add: get_overall_sentiment_summary_def get_voice_summary_def get_facial_summary_def)

subsection \<open>The timestamp\<close>

lemma analyze_sentiment_timestamp:
  "sentiment_result_timestamp (analyze_sentiment env text ts) = ts"
  by (simp add: analyze_sentiment_def Let_def split: sum.splits prod.splits)

lemma analyze_voice_timestamp:
  "voice_result_timestamp (analyze_voice order text ts d) = ts"
  by (simp add: analyze_voice_def Let_def split: sum.splits)

lemma analyze_facial_ok:
  "\<exists>a. fst (analyze_facial_expression g i ts img) = FacialOk a"
  by (simp add: analyze_facial_expression_def Let_def)

lemma analyze_facial_timestamp:
  "facial_result_timestamp (fst (analyze_facial_expression g i ts img)) = ts"
  by (simp add: analyze_facial_expression_def Let_def)

lemma sentiment_timestamp_key: "''timestamp'' \<in> set (sentiment_keys r)"
  by (cases r) simp_all

lemma voice_timestamp_key: "''timestamp'' \<in> set (voice_keys r)"
  by (cases r) simp_all

lemma facial_timestamp_key: "''timestamp'' \<in> set (facial_keys r)"
  by (cases r) simp_all

text \<open>
  C10. Every result of the three scorers, the analysis and the error dictionary alike, has
  the key \<open>timestamp\<close>, and its value is the timestamp the caller gave.
\<close>

theorem timestamp_passthrough:
  "''timestamp'' \<in> set (sentiment_keys (analyze_sentiment env text ts))
   \<and> sentiment_result_timestamp (analyze_sentiment env text ts) = ts
   \<and> ''timestamp'' \<in> set (voice_keys (analyze_voice order text ts duration))
   \<and> voice_result_timestamp (analyze_voice order text ts duration) = ts
   \<and> ''timestamp'' \<in> set (facial_keys (fst (analyze_facial_expression g i ts image_data)))
   \<and> facial_result_timestamp (fst (analyze_facial_expression g i ts image_data)) = ts"
  by (simp only: analyze_sentiment_timestamp analyze_voice_timestamp analyze_facial_timestamp
      sentiment_timestamp_key voice_timestamp_key facial_timestamp_key simp_thms)

subsection \<open>The ranges of the facial scores\<close>

lemma confidence_draw_range:
  "7 / 10 \<le> py_round (uniform (7 / 10) (95 / 100) (random_at g j)) 3
   \<and> py_round (uniform (7 / 10) (95 / 100) (random_at g j)) 3 \<le> 95 / 100"
proof -
  define x where "x = uniform (7 / 10) (95 / 100) (random_at g j)"
  have "7 / 10 \<le> x \<and> x \<le> 95 / 100"
    unfolding x_def using random_at_range [of g j] by (intro uniform_range) simp_all
  then show ?thesis
    unfolding x_def [symmetric] using py_round_ge [of 700 3 x] py_round_le [of x 950 3] by simp
qed

lemma professionalism_factors_range:
  fixes a b c d :: bool
  defines "x \<equiv> ((if a then 1 else 7 / 10) + (if b then 1 else 6 / 10)
                  + (if c then 1 else 8 / 10) + (if d then 1 else 5 / 10)) / (4 :: rat)"
  shows "65 / 100 \<le> x \<and> x \<le> 1"
  unfolding x_def by simp

lemma py_round_professionalism:
  assumes "65 / 100 \<le> x" "x \<le> 1"
  shows "65 / 100 \<le> py_round x 3 \<and> py_round x 3 \<le> 1"
  using py_round_ge [of 650 3 x] py_round_le [of x 1000 3] assms by simp

text \<open>
  C7. Whatever the random source draws, and from whatever position, the facial scorer
  returns an analysis whose primary confidence is in \<open>[0.7, 0.95]\<close> and whose
  professionalism score is in \<open>[0.5, 1.0]\<close>.
\<close>

theorem facial_score_ranges:
  "\<exists>a. fst (analyze_facial_expression g i ts image_data) = FacialOk a
      \<and> 7 / 10 \<le> ec_confidence (fe_primary (fx_facial_expression a))
      \<and> ec_confidence (fe_primary (fx_facial_expression a)) \<le> 95 / 100
      \<and> 1 / 2 \<le> fp_score (fx_professionalism a)
      \<and> fp_score (fx_professionalism a) \<le> 1"
proof -
  obtain a where a: "fst (analyze_facial_expression g i ts image_data) = FacialOk a"
    using analyze_facial_ok by blast
  have c: "ec_confidence (fe_primary (fx_facial_expression a))
      = py_round (uniform (7 / 10) (95 / 100) (random_at g (i + 1))) 3"
    using a by (auto simp: analyze_facial_expression_def Let_def)
  obtain p q r s :: bool where
    "fp_score (fx_professionalism a)
      = py_round (((if p then 1 else 7 / 10) + (if q then 1 else 6 / 10)
                  + (if r then 1 else 8 / 10) + (if s then 1 else 5 / 10)) / 4) 3"
    using a by (auto simp: analyze_facial_expression_def Let_def add.assoc)
  then have "65 / 100 \<le> fp_score (fx_professionalism a) \<and> fp_score (fx_professionalism a) \<le> 1"
    using professionalism_factors_range [of p q r s] py_round_professionalism by metis
  then show ?thesis using a c confidence_draw_range [of g "i + 1"] by auto
qed

subsection \<open>The speaking pace\<close>

















subsection \<open>Texts without content\<close>

lemma filter_text_blank:
  assumes "\<forall>c\<in>set text. isspace c" "blank_has_no_token env"
  shows "filter_text env text = Inr ([], []) \<or> (\<exists>e. filter_text env text = Inl e)"
proof (cases "word_tokenize env (remove_punctuation (py_lower text))")
  case (Inl e)
  then show ?thesis by (simp add: filter_text_def)
next
  case (Inr tokens)
  have "\<forall>c\<in>set (remove_punctuation (py_lower text)). isspace c"
    using assms(1) by (rule blank_filter_input)
  then have "tokens = []" using assms(2) Inr unfolding blank_has_no_token_def by blast
  then show ?thesis using Inr by (simp add: filter_text_def)
qed

lemma analyze_sentiment_blank:
  assumes "\<forall>c\<in>set text. isspace c" "blank_has_no_token env"
  shows "\<exists>msg. analyze_sentiment env text ts = SentimentError ts msg"
  using filter_text_blank [OF assms]
  by (auto simp: analyze_sentiment_def py_strip_def)

lemma analyze_voice_blank:
  assumes "\<forall>c\<in>set text. isspace c"
  shows "analyze_voice order text ts duration
           = VoiceError ts ''No text provided for voice analysis''"
  using assms by (simp add: analyze_voice_def py_strip_Nil)

lemma example_nlp_blank: "blank_has_no_token example_nlp"
  by (simp add: blank_has_no_token_def example_nlp_def py_split_Nil)

text \<open>
  C1. For every text that is empty or has only whitespace, \<open>analyze_sentiment\<close> and
  \<open>analyze_voice\<close> both return the error dictionary: its keys are \<open>timestamp\<close> and
  \<open>error\<close>, so it has no score and no \<open>sentiment\<close>. Neither raises: an exception of the
  tokenizer is caught and gives the same dictionary. The tokenizer is assumed to find no
  token in a text of whitespace.
\<close>

theorem blank_text_is_an_error:
  assumes "\<forall>c\<in>set text. isspace c" and "blank_has_no_token env"
  shows "sentiment_error (analyze_sentiment env text ts) \<noteq> None
    \<and> sentiment_keys (analyze_sentiment env text ts) = [''timestamp'', ''error'']
    \<and> ''sentiment'' \<notin> set (sentiment_keys (analyze_sentiment env text ts))
    \<and> voice_error (analyze_voice order text ts duration)
        = Some ''No text provided for voice analysis''
    \<and> voice_keys (analyze_voice order text ts duration) = [''timestamp'', ''error'']"
proof -
  obtain msg where "analyze_sentiment env text ts = SentimentError ts msg"
    using analyze_sentiment_blank [OF assms] by blast
  then show ?thesis using analyze_voice_blank [OF assms(1)] by simp
qed

theorem blank_text_is_an_error_witness:
  "isspace CHR '' '' \<and> blank_has_no_token example_nlp
   \<and> sentiment_keys (analyze_sentiment example_nlp '' '' (JInt 7)) = [''timestamp'', ''error'']
   \<and> voice_keys (analyze_voice filler_words '' '' (JInt 7) JNull) = [''timestamp'', ''error'']"
proof -
  have b: "\<forall>c\<in>set '' ''. isspace c" by (simp add: isspace_def)
  show ?thesis
    using blank_text_is_an_error [OF b example_nlp_blank, of "JInt 7" filler_words JNull]
      example_nlp_blank
    by (simp add: isspace_def)
qed

subsection \<open>The comprehensive route\<close>

lemma analyze_sentiment_no_content:
  "filter_text env text = Inr (tokens, filtered) \<Longrightarrow> py_strip filtered = [] \<Longrightarrow>
   analyze_sentiment env text ts
     = SentimentError ts ''No meaningful content to analyze after filtering''"
  by (simp add: analyze_sentiment_def)

text \<open>
  C8. On the comprehensive route, with a text that is not empty and a timestamp that is
  true, the response has the status 200 and holds the result of each of the three
  scorers, whatever these results are. When the filtered text of the sentiment scorer is
  empty its result is the error dictionary, and the two other results are returned with
  it; the facial result is never an error. The scorers return a result for every input,
  an exception of their body being turned into the error dictionary.
\<close>

theorem comprehensive_degrades_per_field:
  assumes "rq_text data \<noteq> []" and "truthy (rq_timestamp data)"
  shows "fst (comprehensive_analysis env order g i data) =
           (ComprehensiveBody (rq_timestamp data)
              (analyze_sentiment env (rq_text data) (rq_timestamp data))
              (analyze_voice order (rq_text data) (rq_timestamp data) (rq_duration data))
              (fst (analyze_facial_expression g i (rq_timestamp data) (rq_image_data data))),
            200)
    \<and> (filter_text env (rq_text data) = Inr (tokens, filtered) \<longrightarrow> py_strip filtered = [] \<longrightarrow>
         analyze_sentiment env (rq_text data) (rq_timestamp data)
           = SentimentError (rq_timestamp data)
               ''No meaningful content to analyze after filtering'')
    \<and> facial_error
         (fst (analyze_facial_expression g i (rq_timestamp data) (rq_image_data data))) = None"
proof -
  have "facial_error
         (fst (analyze_facial_expression g i (rq_timestamp data) (rq_image_data data))) = None"
    using analyze_facial_ok [of g i "rq_timestamp data" "rq_image_data data"] by auto
  then show ?thesis
    using assms by (simp add: comprehensive_analysis_def Let_def analyze_sentiment_no_content)
qed

lemma example_filter: "filter_text example_nlp ''um so'' = Inr ([], [])"
  by code_simp

lemma example_voice: "voice_error (analyze_voice filler_words ''um so'' (JInt 1) JNull) = None"
  by code_simp

theorem comprehensive_degrades_per_field_witness:
  "rq_text example_request \<noteq> [] \<and> truthy (rq_timestamp example_request)
   \<and> filter_text example_nlp (rq_text example_request) = Inr ([], []) \<and> py_strip [] = []
   \<and> (case fst (comprehensive_analysis example_nlp filler_words (\<lambda>n. 0) 0 example_request) of
         (ComprehensiveBody ts s v f, status) \<Rightarrow>
            status = (200 :: nat)
            \<and> s = SentimentError (JInt 1) ''No meaningful content to analyze after filtering''
            \<and> voice_error v = None \<and> facial_error f = None
       | (ErrorBody msg, status) \<Rightarrow> False)"
proof -
  have t: "rq_text example_request \<noteq> []" by (simp add: example_request_def)
  have u: "truthy (rq_timestamp example_request)" by (simp add: example_request_def)
  have f: "filter_text example_nlp (rq_text example_request) = Inr ([], [])"
    by (simp add: example_request_def example_filter)
  have s: "py_strip [] = []" by (simp add: py_strip_def)
  have v: "voice_error (analyze_voice filler_words (rq_text example_request)
             (rq_timestamp example_request) (rq_duration example_request)) = None"
    by (simp add: example_request_def example_voice)
  show ?thesis
    using comprehensive_degrades_per_field
      [OF t u, of example_nlp filler_words "\<lambda>n. 0" 0 "[]" "[]"] t u f s v
    by (simp add: example_request_def)
qed

subsection \<open>The filler loop\<close>




















subsection \<open>Repeated calls\<close>




subsection \<open>Confidence and clarity\<close>
















subsection \<open>The facial scorer varies\<close>

text \<open>The facial scorer is not under the law of repeated calls: its result changes with
  the draws.\<close>

lemma random_at_zero: "random_at zero_draws i = 0"
  by (simp add: random_at_def zero_draws_def)

lemma random_at_half: "random_at half_draws i = 1 / 2"
proof -
  have "unat (2 ^ 52 :: 53 word) = 2 ^ 52" by (simp add: unsigned_eq_0_iff)
  then show ?thesis by (simp add: random_at_def half_draws_def)
qed

lemma facial_primary_confidence:
  "fst (analyze_facial_expression g i ts img) = FacialOk a \<Longrightarrow>
   ec_confidence (fe_primary (fx_facial_expression a))
     = py_round (uniform (7 / 10) (95 / 100) (random_at g (i + 1))) 3"
  by (auto simp: analyze_facial_expression_def Let_def)

lemma facial_depends_on_draws:
  "fst (analyze_facial_expression zero_draws i ts img)
     \<noteq> fst (analyze_facial_expression half_draws i ts img)"
proof
  assume e: "fst (analyze_facial_expression zero_draws i ts img)
     = fst (analyze_facial_expression half_draws i ts img)"
  obtain a where a: "fst (analyze_facial_expression zero_draws i ts img) = FacialOk a"
    by (simp add: analyze_facial_expression_def Let_def)
  have "py_round (uniform (7 / 10) (95 / 100) (random_at zero_draws (i + 1))) 3
      = py_round (uniform (7 / 10) (95 / 100) (random_at half_draws (i + 1))) 3"
    using facial_primary_confidence [OF a] facial_primary_confidence [OF a [unfolded e]] by simp
  then have "py_round (7 / 10) 3 = py_round (33 / 40) 3"
    by (simp add: random_at_zero random_at_half uniform_def)
  moreover have "py_round (7 / 10) 3 = 7 / 10" by code_simp
  moreover have "py_round (33 / 40) 3 = 33 / 40" by code_simp
  ultimately show False by simp
qed

end
